theory Spec2Isabelle
  imports Main
begin

section \<open>ScriptSense: the session workflow of \<^verbatim>\<open>live.py\<close>\<close>

text \<open>
  \<^verbatim>\<open>live.py\<close> is a Streamlit script: every user interaction re-executes it from top to
  bottom against the persistent \<^verbatim>\<open>st.session_state\<close>. The embedding below follows the
  script block by block. Images and uploaded files are opaque (type variables), the
  generative models and \<^verbatim>\<open>Image.open\<close> are parameters, and everything the script shows
  or sends to a model is recorded in an effect log.
\<close>

subsection \<open>Session state (lines 48--56)\<close>

record 'img session =
  captured_image_pil :: "'img option"
  analysis_result :: "string option"
  show_camera :: bool
  previous_language :: "string option"

definition initial_session :: "'img session" where
  "initial_session =
     \<lparr>captured_image_pil = None, analysis_result = None,
      show_camera = False, previous_language = None\<rparr>"

subsection \<open>Collaborators, widget values and effects\<close>

text \<open>
  A call of \<^verbatim>\<open>generate_content\<close> followed by \<^verbatim>\<open>response.text\<close> either yields a text or
  raises; in the second case a truthy \<^verbatim>\<open>prompt_feedback.block_reason\<close> may be readable.
\<close>

datatype gen_response = Text string | Raised "string option"

datatype 'img effect =
    VisionCall string 'img
  | TextCall string
  | VisionError
  | TextError
  | Blocked string
  | CameraInfo
  | CameraDecodeError
  | UploadDecodeError
  | ShowImage 'img
  | ResultArea string
  | DownloadButton string string
  | FollowUpSuccess string
  | FollowUpWarning
  | GetStartedInfo

text \<open>The widget values one execution of the script reads.\<close>

record 'file inputs =
  language_option :: string
  uploaded_file :: "'file option"
  activate_camera_clicked :: bool
  camera_img_file_buffer :: "'file option"
  clear_image_clicked :: bool
  user_q :: string
  get_answer_clicked :: bool

text \<open>\<^verbatim>\<open>Image.open\<close> (\<open>None\<close>: it raises) and the two Gemini models.\<close>

record ('file, 'img) env =
  image_open :: "'file \<Rightarrow> 'img option"
  model_vision :: "string \<Rightarrow> 'img \<Rightarrow> gen_response"
  model_text :: "string \<Rightarrow> gen_response"

text \<open>The options of the language select box (line 102).\<close>

definition languages :: "string list" where
  "languages = [''English'', ''French'', ''Spanish'', ''German'', ''Twi'', ''Hausa'',
                ''Arabic'', ''Chinese'', ''Japanese'', ''Korean'']"

text \<open>Python truthiness of an optional string: \<^verbatim>\<open>None\<close> and \<^verbatim>\<open>""\<close> are falsy.\<close>

definition truthy :: "string option \<Rightarrow> bool" where
  "truthy x = (case x of None \<Rightarrow> False | Some t \<Rightarrow> t \<noteq> [])"

subsection \<open>The two model wrappers (lines 60--90)\<close>

definition vision_prompt :: "string \<Rightarrow> string" where
  "vision_prompt lang_opt =
     ''Extract all the handwritten text from this image. Then translate it to '' @ lang_opt @
     ''. Also summarize and analyze it for meaning, intent, and any action points.''"

definition followup_prompt :: "string \<Rightarrow> string \<Rightarrow> string" where
  "followup_prompt previous_text user_question =
     ''Given the previous text analysis:'' @
     [CHR 0x0A, CHR 0x0A, CHR 0x22, CHR 0x22, CHR 0x22, CHR 0x0A] @ previous_text @
     [CHR 0x0A, CHR 0x22, CHR 0x22, CHR 0x22, CHR 0x0A, CHR 0x0A] @
     ''Answer this question: '' @ user_question"

definition block_feedback :: "string option \<Rightarrow> 'img effect list" where
  "block_feedback br = (case br of None \<Rightarrow> [] | Some r \<Rightarrow> [Blocked r])"

definition process_image_with_gemini ::
  "(string \<Rightarrow> 'img \<Rightarrow> gen_response) \<Rightarrow> 'img \<Rightarrow> string \<Rightarrow> string option \<times> 'img effect list" where
  "process_image_with_gemini mv pil_image lang_opt =
     (let prompt = vision_prompt lang_opt in
      case mv prompt pil_image of
        Text t \<Rightarrow> (Some t, [VisionCall prompt pil_image])
      | Raised br \<Rightarrow> (None, [VisionCall prompt pil_image, VisionError] @ block_feedback br))"

definition get_followup_response ::
  "(string \<Rightarrow> gen_response) \<Rightarrow> string \<Rightarrow> string \<Rightarrow> string option \<times> 'img effect list" where
  "get_followup_response mt previous_text user_question =
     (let prompt = followup_prompt previous_text user_question in
      case mt prompt of
        Text t \<Rightarrow> (Some t, [TextCall prompt])
      | Raised br \<Rightarrow> (None, [TextCall prompt, TextError] @ block_feedback br))"

subsection \<open>Input column (lines 98--149)\<close>

text \<open>
  \<^verbatim>\<open>st.rerun()\<close> abandons the current execution and starts the script again; it is not
  caught by \<^verbatim>\<open>except Exception\<close>. A block that can call it says how it ended.
\<close>

datatype flow = Continue | Rerun

text \<open>The body of the \<^verbatim>\<open>Activate Camera\<close> button (lines 111--114).\<close>

definition toggle_camera :: "'img session \<Rightarrow> 'img session" where
  "toggle_camera s =
     (let s1 = s\<lparr>show_camera := \<not> show_camera s\<rparr> in
      if \<not> show_camera s1
      then s1\<lparr>captured_image_pil := None, analysis_result := None\<rparr>
      else s1)"

text \<open>The camera block (lines 117--129).\<close>

definition camera_block ::
  "('file \<Rightarrow> 'img option) \<Rightarrow> 'file option \<Rightarrow> 'img session \<Rightarrow> flow \<times> 'img session \<times> 'img effect list" where
  "camera_block img_open buffer s =
     (if show_camera s then
        (case buffer of
           None \<Rightarrow> (Continue, s, [CameraInfo])
         | Some f \<Rightarrow>
             (case img_open f of
                Some pil_image_cam \<Rightarrow>
                  (Rerun,
                   s\<lparr>captured_image_pil := Some pil_image_cam, analysis_result := None,
                     show_camera := False\<rparr>,
                   [CameraInfo])
              | None \<Rightarrow>
                  (Continue, s\<lparr>captured_image_pil := None\<rparr>, [CameraInfo, CameraDecodeError])))
      else (Continue, s, []))"

text \<open>The upload block (lines 132--140).\<close>

definition upload_block ::
  "('file \<Rightarrow> 'img option) \<Rightarrow> 'file option \<Rightarrow> 'img session \<Rightarrow> 'img session \<times> 'img effect list" where
  "upload_block img_open uploaded s =
     (case uploaded of
        None \<Rightarrow> (s, [])
      | Some f \<Rightarrow>
          (case img_open f of
             Some pil_image_upload \<Rightarrow>
               (s\<lparr>captured_image_pil := Some pil_image_upload, analysis_result := None,
                  show_camera := False\<rparr>, [])
           | None \<Rightarrow> (s\<lparr>captured_image_pil := None\<rparr>, [UploadDecodeError])))"

text \<open>The body of the \<^verbatim>\<open>Clear Image & Analysis\<close> button (lines 146--148).\<close>

definition clear_image :: "'img session \<Rightarrow> 'img session" where
  "clear_image s = s\<lparr>captured_image_pil := None, analysis_result := None, show_camera := False\<rparr>"

text \<open>The preview and the clear button (lines 143--149).\<close>

definition clear_block :: "bool \<Rightarrow> 'img session \<Rightarrow> flow \<times> 'img session \<times> 'img effect list" where
  "clear_block clicked s =
     (case captured_image_pil s of
        None \<Rightarrow> (Continue, s, [])
      | Some img \<Rightarrow>
          if clicked then (Rerun, clear_image s, [ShowImage img])
          else (Continue, s, [ShowImage img]))"

subsection \<open>Analysis column (lines 152--189)\<close>

definition failure_placeholder :: string where
  "failure_placeholder = ''Analysis failed. Please try a different image or check logs.''"

text \<open>Lines 155--165, for the image \<open>img\<close> found at line 153.\<close>

definition ensure_analysis ::
  "(string \<Rightarrow> 'img \<Rightarrow> gen_response) \<Rightarrow> string \<Rightarrow> 'img \<Rightarrow> 'img session \<Rightarrow> 'img session \<times> 'img effect list" where
  "ensure_analysis mv lang img s =
     (let language_changed = (previous_language s \<noteq> Some lang) in
      if analysis_result s = None \<or> language_changed then
        (case process_image_with_gemini mv img lang of
           (analysis, log) \<Rightarrow>
             if truthy analysis
             then (s\<lparr>analysis_result := analysis, previous_language := Some lang\<rparr>, log)
             else if language_changed
             then (s\<lparr>analysis_result := Some failure_placeholder\<rparr>, log)
             else (s, log))
      else (s, []))"

definition download_name :: "string \<Rightarrow> string" where
  "download_name lang = ''ScriptSense_Analysis_'' @ lang @ ''.txt''"

text \<open>The follow-up question (lines 180--187), asked against \<open>result\<close>.\<close>

definition ask_followup ::
  "(string \<Rightarrow> gen_response) \<Rightarrow> string \<Rightarrow> string \<Rightarrow> bool \<Rightarrow> 'img session \<Rightarrow> 'img session \<times> 'img effect list" where
  "ask_followup mt result q clicked s =
     (if q \<noteq> [] \<and> clicked then
        (case get_followup_response mt result q of
           (followup_text, log) \<Rightarrow>
             (case followup_text of
                Some t \<Rightarrow> if t \<noteq> [] then (s, log @ [FollowUpSuccess t]) else (s, log @ [FollowUpWarning])
              | None \<Rightarrow> (s, log @ [FollowUpWarning])))
      else (s, []))"

text \<open>Result display, download and follow-up (lines 168--187).\<close>

definition result_section ::
  "(string \<Rightarrow> gen_response) \<Rightarrow> string \<Rightarrow> string \<Rightarrow> bool \<Rightarrow> 'img session \<Rightarrow> 'img session \<times> 'img effect list" where
  "result_section mt lang q clicked s =
     (case analysis_result s of
        None \<Rightarrow> (s, [])
      | Some r \<Rightarrow>
          if r \<noteq> [] then
            (case ask_followup mt r q clicked s of
               (s', log) \<Rightarrow> (s', [ResultArea r, DownloadButton r (download_name lang)] @ log))
          else (s, []))"

definition col2 ::
  "(string \<Rightarrow> 'img \<Rightarrow> gen_response) \<Rightarrow> (string \<Rightarrow> gen_response) \<Rightarrow> string \<Rightarrow> string \<Rightarrow> bool \<Rightarrow>
     'img session \<Rightarrow> 'img session \<times> 'img effect list" where
  "col2 mv mt lang q clicked s =
     (case captured_image_pil s of
        None \<Rightarrow> (s, [GetStartedInfo])
      | Some img \<Rightarrow>
          (case ensure_analysis mv lang img s of
             (s1, log1) \<Rightarrow>
               (case result_section mt lang q clicked s1 of
                  (s2, log2) \<Rightarrow> (s2, log1 @ log2))))"

subsection \<open>One execution of the script, and a refresh cycle\<close>

definition script_run ::
  "('file, 'img) env \<Rightarrow> 'file inputs \<Rightarrow> 'img session \<Rightarrow> flow \<times> 'img session \<times> 'img effect list" where
  "script_run e inp s =
     (let s1 = (if activate_camera_clicked inp then toggle_camera s else s) in
      case camera_block (image_open e) (camera_img_file_buffer inp) s1 of
        (Rerun, s2, log2) \<Rightarrow> (Rerun, s2, log2)
      | (Continue, s2, log2) \<Rightarrow>
          (case upload_block (image_open e) (uploaded_file inp) s2 of
             (s3, log3) \<Rightarrow>
               (case clear_block (clear_image_clicked inp) s3 of
                  (Rerun, s4, log4) \<Rightarrow> (Rerun, s4, log2 @ log3 @ log4)
                | (Continue, s4, log4) \<Rightarrow>
                    (case col2 (model_vision e) (model_text e) (language_option inp) (user_q inp)
                            (get_answer_clicked inp) s4 of
                       (s5, log5) \<Rightarrow> (Continue, s5, log2 @ log3 @ log4 @ log5)))))"

text \<open>
  Widget values seen by the execution that \<^verbatim>\<open>st.rerun()\<close> starts: a button reads
  \<open>True\<close> only in the execution its click started; the select box, the file uploader and
  the text input keep their values.
\<close>

definition rerun_inputs :: "'file inputs \<Rightarrow> 'file inputs" where
  "rerun_inputs inp =
     inp\<lparr>activate_camera_clicked := False, clear_image_clicked := False,
         get_answer_clicked := False\<rparr>"

text \<open>
  A refresh cycle executes the script and, as long as an execution ends in
  \<^verbatim>\<open>st.rerun()\<close>, executes it again. The fuel bounds the number of executions;
  \<open>None\<close> means the fuel ran out.
\<close>

fun refresh_cycle ::
  "nat \<Rightarrow> ('file, 'img) env \<Rightarrow> 'file inputs \<Rightarrow> 'img session \<Rightarrow> ('img session \<times> 'img effect list) option" where
  "refresh_cycle 0 e inp s = None"
| "refresh_cycle (Suc n) e inp s =
     (case script_run e inp s of
        (Continue, s', log) \<Rightarrow> Some (s', log)
      | (Rerun, s', log) \<Rightarrow>
          (case refresh_cycle n e (rerun_inputs inp) s' of
             None \<Rightarrow> None
           | Some (s'', log') \<Rightarrow> Some (s'', log @ log')))"

text \<open>Number of calls of the vision model in an effect log.\<close>

fun is_vision_call :: "'img effect \<Rightarrow> bool" where
  "is_vision_call (VisionCall p i) = True"
| "is_vision_call _ = False"

definition analyze_calls :: "'img effect list \<Rightarrow> nat" where
  "analyze_calls log = length (filter is_vision_call log)"

text \<open>The session's life: one refresh cycle per user interaction, each with its own
  widget values and collaborator behaviour.\<close>

fun run_cycles ::
  "nat \<Rightarrow> (('file, 'img) env \<times> 'file inputs) list \<Rightarrow> 'img session \<Rightarrow> 'img session option" where
  "run_cycles n [] s = Some s"
| "run_cycles n (x # xs) s =
     (case refresh_cycle n (fst x) (snd x) s of
        None \<Rightarrow> None
      | Some (s', log) \<Rightarrow> run_cycles n xs s')"

subsection \<open>Example sessions, files and collaborators\<close>

text \<open>Images and files are numbers here; file \<open>n\<close> decodes to image \<open>n\<close>, except file 0.\<close>

definition open_example :: "nat \<Rightarrow> nat option" where
  "open_example f = (if f = 0 then None else Some f)"

definition vision_down :: "string \<Rightarrow> nat \<Rightarrow> gen_response" where
  "vision_down p i = Raised None"

definition vision_up :: "string \<Rightarrow> nat \<Rightarrow> gen_response" where
  "vision_up p i = Text ''Bonjour''"

definition text_down :: "string \<Rightarrow> gen_response" where
  "text_down p = Raised (Some ''SAFETY'')"

definition text_up :: "string \<Rightarrow> gen_response" where
  "text_up p = Text ''A greeting.''"

definition env_up :: "(nat, nat) env" where
  "env_up = \<lparr>image_open = open_example, model_vision = vision_up, model_text = text_up\<rparr>"

definition env_down :: "(nat, nat) env" where
  "env_down = \<lparr>image_open = open_example, model_vision = vision_down, model_text = text_down\<rparr>"

text \<open>The first image of a session has just been stored.\<close>

definition first_image :: "nat session" where
  "first_image = initial_session\<lparr>captured_image_pil := Some 1\<rparr>"

text \<open>Image 1 has been analysed for French.\<close>

definition analysed_french :: "nat session" where
  "analysed_french =
     \<lparr>captured_image_pil = Some 1, analysis_result = Some ''Bonjour'',
      show_camera = False, previous_language = Some ''French''\<rparr>"

text \<open>Image 1 analysed for French, camera switched on afterwards.\<close>

definition camera_on :: "nat session" where
  "camera_on = analysed_french\<lparr>show_camera := True\<rparr>"

text \<open>No widget touched, \<open>lang\<close> selected.\<close>

definition idle_inputs :: "string \<Rightarrow> nat inputs" where
  "idle_inputs lang =
     \<lparr>language_option = lang, uploaded_file = None, activate_camera_clicked = False,
      camera_img_file_buffer = None, clear_image_clicked = False, user_q = [],
      get_answer_clicked = False\<rparr>"

text \<open>File 2 in the uploader and photo 3 in the camera widget.\<close>

definition both_inputs :: "nat inputs" where
  "both_inputs = (idle_inputs ''French'')\<lparr>uploaded_file := Some 2, camera_img_file_buffer := Some 3\<rparr>"

definition capture_inputs :: "nat inputs" where
  "capture_inputs = (idle_inputs ''French'')\<lparr>camera_img_file_buffer := Some 3\<rparr>"

definition toggle_inputs :: "nat inputs" where
  "toggle_inputs = (idle_inputs ''French'')\<lparr>activate_camera_clicked := True\<rparr>"

text \<open>
  The undecodable file 0 stays in the uploader: first alone, then while the camera button
  is clicked, then while photo 3 is taken.
\<close>

definition broken_upload_inputs :: "nat inputs" where
  "broken_upload_inputs = (idle_inputs ''French'')\<lparr>uploaded_file := Some 0\<rparr>"

definition broken_upload_toggle_inputs :: "nat inputs" where
  "broken_upload_toggle_inputs = broken_upload_inputs\<lparr>activate_camera_clicked := True\<rparr>"

definition broken_upload_photo_inputs :: "nat inputs" where
  "broken_upload_photo_inputs = broken_upload_inputs\<lparr>camera_img_file_buffer := Some 3\<rparr>"

section \<open>Properties\<close>

subsection \<open>Frame lemmas of the analysis column\<close>

lemma ask_followup_state: "fst (ask_followup mt r q clicked s) = s"
  by (simp add: ask_followup_def split_beta split: option.splits)

lemma result_section_state: "fst (result_section mt lang q clicked s) = s"
  by (simp add: result_section_def split_beta ask_followup_state split: option.splits)

lemma col2_state:
  "fst (col2 mv mt lang q clicked s) =
     (case captured_image_pil s of None \<Rightarrow> s | Some img \<Rightarrow> fst (ensure_analysis mv lang img s))"
  by (simp add: col2_def split_beta result_section_state split: option.splits)

lemma ensure_analysis_frame:
  "captured_image_pil (fst (ensure_analysis mv lang img s)) = captured_image_pil s"
  "show_camera (fst (ensure_analysis mv lang img s)) = show_camera s"
  by (simp_all add: ensure_analysis_def Let_def split_beta)

lemma col2_frame:
  "captured_image_pil (fst (col2 mv mt lang q clicked s)) = captured_image_pil s"
  "show_camera (fst (col2 mv mt lang q clicked s)) = show_camera s"
  by (simp_all add: col2_state ensure_analysis_frame split: option.splits)

lemma col2_no_image:
  "captured_image_pil s = None \<Longrightarrow> col2 mv mt lang q clicked s = (s, [GetStartedInfo])"
  by (simp add: col2_def)

lemma script_run_state_followup:
  "fst (snd (script_run (e\<lparr>model_text := mt'\<rparr>) (inp\<lparr>user_q := q', get_answer_clicked := c'\<rparr>) s)) =
   fst (snd (script_run e inp s))"
  by (simp add: script_run_def Let_def split_beta col2_state split: flow.splits)

subsection \<open>A refresh cycle needs at most two executions\<close>

text \<open>Both calls of \<^verbatim>\<open>st.rerun()\<close> leave the camera off.\<close>

lemma script_run_rerun_camera_off:
  assumes "script_run e inp s = (Rerun, s', log)"
  shows "\<not> show_camera s'"
  using assms
  by (auto simp add: script_run_def camera_block_def upload_block_def clear_block_def clear_image_def
        Let_def split_beta split: if_splits option.splits flow.splits prod.splits)

text \<open>With the camera off and no button clicked, the script runs to its end.\<close>

lemma script_run_settled:
  assumes "\<not> show_camera s"
  shows "fst (script_run e (rerun_inputs inp) s) = Continue"
  using assms
  by (simp add: script_run_def rerun_inputs_def camera_block_def clear_block_def
        Let_def split_beta split: option.splits)

lemma refresh_cycle_returns:
  "\<exists>r. refresh_cycle (Suc (Suc n)) e inp s = Some r"
proof (cases "script_run e inp s")
  case (fields fl s1 log1)
  show ?thesis
  proof (cases fl)
    case Continue
    with fields show ?thesis by simp
  next
    case Rerun
    with fields have off: "\<not> show_camera s1"
      using script_run_rerun_camera_off by blast
    obtain fl2 s2 log2 where r2: "script_run e (rerun_inputs inp) s1 = (fl2, s2, log2)"
      by (cases "script_run e (rerun_inputs inp) s1") auto
    with script_run_settled[OF off, of e inp] have "fl2 = Continue" by simp
    with fields Rerun r2 show ?thesis by simp
  qed
qed

lemma run_cycles_append:
  "run_cycles n (xs @ ys) s =
     (case run_cycles n xs s of None \<Rightarrow> None | Some s' \<Rightarrow> run_cycles n ys s')"
  by (induction xs arbitrary: s) (simp_all split: option.splits)

lemma run_cycles_returns: "\<exists>s'. run_cycles (Suc (Suc n)) xs s = Some s'"
proof (induction xs arbitrary: s)
  case Nil
  show ?case by simp
next
  case (Cons x xs)
  obtain s1 log1 where "refresh_cycle (Suc (Suc n)) (fst x) (snd x) s = Some (s1, log1)"
    using refresh_cycle_returns[of n "fst x" "snd x" s] by auto
  with Cons[of s1] show ?case by simp
qed

subsection \<open>Which image a cycle leaves\<close>

lemma rerun_inputs_fields:
  "uploaded_file (rerun_inputs inp) = uploaded_file inp"
  "language_option (rerun_inputs inp) = language_option inp"
  "activate_camera_clicked (rerun_inputs inp) = False"
  "clear_image_clicked (rerun_inputs inp) = False"
  by (simp_all add: rerun_inputs_def)

lemma script_run_upload_image:
  assumes "uploaded_file inp = Some f" and "image_open e f = Some u"
    and "script_run e inp s = (Continue, s', log)"
  shows "captured_image_pil s' = Some u"
proof -
  from assms(3) obtain s4 where
    c2: "s' = fst (col2 (model_vision e) (model_text e) (language_option inp) (user_q inp)
                    (get_answer_clicked inp) s4)"
    and img: "captured_image_pil s4 = Some u"
    using assms(1,2)
    by (auto simp add: script_run_def upload_block_def clear_block_def Let_def split_beta
          split: if_splits option.splits flow.splits prod.splits)
  then show ?thesis by (simp add: col2_frame)
qed

lemma refresh_cycle_upload:
  assumes "uploaded_file inp = Some f" and "image_open e f = Some u"
  shows "\<exists>s' log. refresh_cycle 2 e inp s = Some (s', log) \<and> captured_image_pil s' = Some u"
proof (cases "script_run e inp s")
  case (fields fl s1 log1)
  show ?thesis
  proof (cases fl)
    case Continue
    with fields script_run_upload_image[OF assms] show ?thesis
      by (simp add: numeral_2_eq_2)
  next
    case Rerun
    with fields have off: "\<not> show_camera s1"
      using script_run_rerun_camera_off by blast
    obtain fl2 s2 log2 where r2: "script_run e (rerun_inputs inp) s1 = (fl2, s2, log2)"
      by (cases "script_run e (rerun_inputs inp) s1") auto
    with script_run_settled[OF off, of e inp] have c: "fl2 = Continue" by simp
    from assms(1) have up: "uploaded_file (rerun_inputs inp) = Some f"
      by (simp add: rerun_inputs_fields)
    from script_run_upload_image[OF up assms(2)] r2 c have "captured_image_pil s2 = Some u"
      by simp
    with fields Rerun r2 c show ?thesis by (simp add: numeral_2_eq_2)
  qed
qed

text \<open>
  A file in the uploader that does not decode leaves the image absent at the end of every
  execution that reaches the upload block (line 140), hence at the end of every cycle.
\<close>

lemma script_run_upload_fails:
  assumes "uploaded_file inp = Some f" and "image_open e f = None"
    and "script_run e inp s = (Continue, s', log)"
  shows "captured_image_pil s' = None"
proof -
  from assms(3) obtain s4 where
    c2: "s' = fst (col2 (model_vision e) (model_text e) (language_option inp) (user_q inp)
                    (get_answer_clicked inp) s4)"
    and img: "captured_image_pil s4 = None"
    using assms(1,2)
    by (auto simp add: script_run_def upload_block_def clear_block_def Let_def split_beta
          split: if_splits option.splits flow.splits prod.splits)
  then show ?thesis by (simp add: col2_frame)
qed

lemma refresh_cycle_upload_fails:
  assumes "uploaded_file inp = Some f" and "image_open e f = None"
  shows "\<exists>s' log. refresh_cycle 2 e inp s = Some (s', log) \<and> captured_image_pil s' = None"
proof (cases "script_run e inp s")
  case (fields fl s1 log1)
  show ?thesis
  proof (cases fl)
    case Continue
    with fields script_run_upload_fails[OF assms] show ?thesis
      by (simp add: numeral_2_eq_2)
  next
    case Rerun
    with fields have off: "\<not> show_camera s1"
      using script_run_rerun_camera_off by blast
    obtain fl2 s2 log2 where r2: "script_run e (rerun_inputs inp) s1 = (fl2, s2, log2)"
      by (cases "script_run e (rerun_inputs inp) s1") auto
    with script_run_settled[OF off, of e inp] have c: "fl2 = Continue" by simp
    from assms(1) have up: "uploaded_file (rerun_inputs inp) = Some f"
      by (simp add: rerun_inputs_fields)
    from script_run_upload_fails[OF up assms(2)] r2 c have "captured_image_pil s2 = None"
      by simp
    with fields Rerun r2 c show ?thesis by (simp add: numeral_2_eq_2)
  qed
qed

text \<open>
  An execution that reads a decodable photo from the active camera stores it and ends in
  \<^verbatim>\<open>st.rerun()\<close> at line 126, before the upload block is reached.
\<close>

lemma script_run_capture:
  assumes "show_camera s \<noteq> activate_camera_clicked inp"
    and "camera_img_file_buffer inp = Some g" and "image_open e g = Some c"
  shows "script_run e inp s =
           (Rerun,
            (if activate_camera_clicked inp then toggle_camera s else s)
              \<lparr>captured_image_pil := Some c, analysis_result := None, show_camera := False\<rparr>,
            [CameraInfo])"
proof -
  from assms(1) have "show_camera (if activate_camera_clicked inp then toggle_camera s else s)"
    by (auto simp add: toggle_camera_def Let_def)
  then show ?thesis
    using assms(2,3) by (simp add: script_run_def camera_block_def Let_def)
qed

lemma refresh_cycle_capture:
  assumes "uploaded_file inp = None"
    and "show_camera s \<noteq> activate_camera_clicked inp"
    and "camera_img_file_buffer inp = Some g" and "image_open e g = Some c"
  shows "\<exists>s' log. refresh_cycle 2 e inp s = Some (s', log) \<and> captured_image_pil s' = Some c"
proof -
  define s1 where "s1 = (if activate_camera_clicked inp then toggle_camera s else s)
      \<lparr>captured_image_pil := Some c, analysis_result := None, show_camera := False\<rparr>"
  have r1: "script_run e inp s = (Rerun, s1, [CameraInfo])"
    unfolding s1_def by (rule script_run_capture[OF assms(2-4)])
  have r2: "script_run e (rerun_inputs inp) s1 =
      (Continue, fst (col2 (model_vision e) (model_text e) (language_option inp) (user_q inp) False s1),
       ShowImage c # snd (col2 (model_vision e) (model_text e) (language_option inp) (user_q inp) False s1))"
    using assms(1)
    by (simp add: script_run_def rerun_inputs_def camera_block_def upload_block_def clear_block_def
          s1_def split_beta Let_def)
  show ?thesis using r1 r2 by (simp add: numeral_2_eq_2 col2_frame s1_def)
qed

subsection \<open>The camera button\<close>

lemma toggle_camera_on:
  "\<not> show_camera s \<Longrightarrow> toggle_camera s = s\<lparr>show_camera := True\<rparr>"
  by (simp add: toggle_camera_def Let_def)

lemma toggle_camera_off:
  "show_camera s \<Longrightarrow>
     toggle_camera s = s\<lparr>show_camera := False, captured_image_pil := None, analysis_result := None\<rparr>"
  by (simp add: toggle_camera_def Let_def)

lemma script_run_camera_on:
  assumes "\<not> show_camera s" and "activate_camera_clicked inp" and "\<not> clear_image_clicked inp"
    and "uploaded_file inp = None" and "camera_img_file_buffer inp = None"
  shows "\<exists>s1 log. script_run e inp s = (Continue, s1, log) \<and> show_camera s1"
proof (cases "captured_image_pil s")
  case None
  with assms show ?thesis
    by (simp add: script_run_def toggle_camera_on camera_block_def upload_block_def clear_block_def
          col2_no_image)
next
  case (Some img)
  with assms show ?thesis
    by (simp add: script_run_def toggle_camera_on camera_block_def upload_block_def clear_block_def
          split_beta col2_frame Let_def)
qed

lemma script_run_camera_off:
  assumes "show_camera s" and "activate_camera_clicked inp" and "uploaded_file inp = None"
  shows "script_run e inp s = (Continue, toggle_camera s, [GetStartedInfo])"
  using assms
  by (simp add: script_run_def toggle_camera_off camera_block_def upload_block_def clear_block_def
        col2_no_image)

subsection \<open>The failure placeholder\<close>

lemma failure_placeholder_nonempty: "failure_placeholder \<noteq> []"
  by (simp add: failure_placeholder_def)

lemma ensure_analysis_failure:
  assumes "previous_language s \<noteq> Some lang"
    and "\<not> truthy (fst (process_image_with_gemini mv img lang))"
  shows "ensure_analysis mv lang img s =
           (s\<lparr>analysis_result := Some failure_placeholder\<rparr>, snd (process_image_with_gemini mv img lang))"
  using assms by (simp add: ensure_analysis_def Let_def split_beta)

lemma result_section_shown:
  assumes "analysis_result s = Some r" and "r \<noteq> []"
  shows "result_section mt lang q clicked s =
           (s, [ResultArea r, DownloadButton r (download_name lang)] @ snd (ask_followup mt r q clicked s))"
  using assms ask_followup_state[of mt r q clicked s]
  by (simp add: result_section_def split_beta prod_eq_iff)

lemma ask_followup_context:
  assumes "q \<noteq> []" and "clicked"
  shows "\<exists>rest. snd (ask_followup mt r q clicked s) = TextCall (followup_prompt r q) # rest"
  using assms
  by (simp add: ask_followup_def get_followup_response_def Let_def split_beta
        split: gen_response.splits option.splits)

section \<open>The claims\<close>

subsection \<open>C1: two consecutive analyses for the same language\<close>

text \<open>
  After a failed first analysis of a session the placeholder is stored, but
  \<open>previous_language\<close> is not, so the next execution for the same language calls the
  vision model again: two calls in two executions.
\<close>

theorem ensure_analysis_twice_counterexample:
  "captured_image_pil first_image = Some 1 \<and>
   analyze_calls
     (snd (ensure_analysis vision_down ''French'' 1 first_image) @
      snd (ensure_analysis vision_down ''French'' 1
             (fst (ensure_analysis vision_down ''French'' 1 first_image)))) = 2 \<and>
   snd (ensure_analysis vision_down ''French'' 1
          (fst (ensure_analysis vision_down ''French'' 1 first_image))) \<noteq> []"
  by (simp add: ensure_analysis_def process_image_with_gemini_def vision_down_def first_image_def
        initial_session_def truthy_def analyze_calls_def block_feedback_def Let_def)

text \<open>
  Claim C1, amended. For a session with an image, if the first of two consecutive analysis
  blocks for the same language \<open>lang\<close> either needs no recomputation or receives a
  non-empty text from the vision model, then the second block calls no collaborator and
  leaves the session as the first one left it; the two blocks together call the vision
  model at most once.
\<close>

theorem ensure_analysis_cache_hit:
  assumes "captured_image_pil s = Some img"
    and "(analysis_result s \<noteq> None \<and> previous_language s = Some lang) \<or>
         (\<exists>t. mv1 (vision_prompt lang) img = Text t \<and> t \<noteq> [])"
  shows "ensure_analysis mv2 lang img (fst (ensure_analysis mv1 lang img s)) =
           (fst (ensure_analysis mv1 lang img s), []) \<and>
         analyze_calls
           (snd (ensure_analysis mv1 lang img s) @
            snd (ensure_analysis mv2 lang img (fst (ensure_analysis mv1 lang img s)))) \<le> 1"
  using assms(2)
  by (auto simp add: ensure_analysis_def process_image_with_gemini_def truthy_def analyze_calls_def
        Let_def)

theorem ensure_analysis_cache_hit_witness:
  "captured_image_pil first_image = Some 1 \<and>
   vision_up (vision_prompt ''French'') 1 = Text ''Bonjour'' \<and>
   ensure_analysis vision_down ''French'' 1 (fst (ensure_analysis vision_up ''French'' 1 first_image)) =
     (fst (ensure_analysis vision_up ''French'' 1 first_image), []) \<and>
   analyze_calls
     (snd (ensure_analysis vision_up ''French'' 1 first_image) @
      snd (ensure_analysis vision_down ''French'' 1
             (fst (ensure_analysis vision_up ''French'' 1 first_image)))) \<le> 1"
proof -
  have h1: "captured_image_pil first_image = Some 1"
    by (simp add: first_image_def initial_session_def)
  have h2: "vision_up (vision_prompt ''French'') 1 = Text ''Bonjour''"
    by (simp add: vision_up_def)
  then have h3: "(analysis_result first_image \<noteq> None \<and> previous_language first_image = Some ''French'') \<or>
      (\<exists>t. vision_up (vision_prompt ''French'') 1 = Text t \<and> t \<noteq> [])"
    by simp
  note c = ensure_analysis_cache_hit[where s = first_image and img = 1 and lang = "''French''"
      and ?mv1.0 = vision_up and ?mv2.0 = vision_down, OF h1 h3]
  show ?thesis
    by (intro conjI h1 h2 conjunct1[OF c] conjunct2[OF c])
qed

subsection \<open>C2: failure of the first analysis of an image\<close>

text \<open>
  In a new session no language is recorded, so the first analysis counts as a language
  change and its failure stores the placeholder.
\<close>

theorem first_failure_counterexample:
  "captured_image_pil first_image = Some 1 \<and> analysis_result first_image = None \<and>
   fst (process_image_with_gemini vision_down 1 ''English'') = None \<and>
   analysis_result (fst (ensure_analysis vision_down ''English'' 1 first_image)) =
     Some failure_placeholder"
  by (simp add: ensure_analysis_def process_image_with_gemini_def vision_down_def first_image_def
        initial_session_def truthy_def block_feedback_def Let_def)

text \<open>
  Claim C2, amended. For a session with an image and no analysis result, if the one call of
  the vision model made by the analysis block fails (it raises or returns an empty text),
  then the result stays absent and the session is unchanged exactly when the recorded
  language equals the target language; otherwise (in particular in a new session, where no
  language is recorded) the failure placeholder is stored as the result and nothing else
  changes.
\<close>

theorem first_failure_result:
  assumes "captured_image_pil s = Some img"
    and "analysis_result s = None"
    and "\<not> truthy (fst (process_image_with_gemini mv img lang))"
  shows "fst (ensure_analysis mv lang img s) =
           (if previous_language s = Some lang then s
            else s\<lparr>analysis_result := Some failure_placeholder\<rparr>) \<and>
         analyze_calls (snd (ensure_analysis mv lang img s)) = 1"
  using assms(2,3)
  by (auto simp add: ensure_analysis_def process_image_with_gemini_def analyze_calls_def
        block_feedback_def Let_def split: gen_response.splits option.splits prod.splits)

theorem first_failure_result_witness:
  "captured_image_pil (analysed_french\<lparr>analysis_result := None\<rparr>) = Some 1 \<and>
   analysis_result (analysed_french\<lparr>analysis_result := None\<rparr>) = None \<and>
   \<not> truthy (fst (process_image_with_gemini vision_down 1 ''French'')) \<and>
   fst (ensure_analysis vision_down ''French'' 1 (analysed_french\<lparr>analysis_result := None\<rparr>)) =
     analysed_french\<lparr>analysis_result := None\<rparr> \<and>
   analyze_calls
     (snd (ensure_analysis vision_down ''French'' 1 (analysed_french\<lparr>analysis_result := None\<rparr>))) = 1"
proof -
  let ?s = "analysed_french\<lparr>analysis_result := None\<rparr>"
  have h1: "captured_image_pil ?s = Some 1" by (simp add: analysed_french_def)
  have h2: "analysis_result ?s = None" by simp
  have h3: "\<not> truthy (fst (process_image_with_gemini vision_down 1 ''French''))"
    by (simp add: process_image_with_gemini_def vision_down_def truthy_def)
  have h4: "previous_language ?s = Some ''French''" by (simp add: analysed_french_def)
  from first_failure_result[where s = "?s" and img = 1 and mv = vision_down and lang = "''French''", OF h1 h2 h3] h1 h2 h3 h4 show ?thesis by simp
qed

subsection \<open>C3: clearing\<close>

text \<open>The clear button does not touch the recorded language.\<close>

theorem clear_image_language_counterexample:
  "previous_language (clear_image analysed_french) = Some ''French'' \<and>
   previous_language (clear_image analysed_french) \<noteq> None"
  by (simp add: clear_image_def analysed_french_def)

text \<open>
  Claim C3, amended. For every prior session, after the clear button's body the image and
  the analysis result are absent and the camera flag is false, while the recorded language
  is what it was before; clearing again changes nothing, and the cleared session offers no
  clear button.
\<close>

theorem clear_image_effect:
  "captured_image_pil (clear_image s) = None \<and>
   analysis_result (clear_image s) = None \<and>
   \<not> show_camera (clear_image s) \<and>
   previous_language (clear_image s) = previous_language s \<and>
   clear_image (clear_image s) = clear_image s \<and>
   clear_block clicked (clear_image s) = (Continue, clear_image s, [])"
  by (simp add: clear_image_def clear_block_def)

theorem clear_image_effect_witness:
  "captured_image_pil (clear_image camera_on) = None \<and>
   analysis_result (clear_image camera_on) = None \<and>
   \<not> show_camera (clear_image camera_on) \<and>
   previous_language (clear_image camera_on) = previous_language camera_on \<and>
   clear_image (clear_image camera_on) = clear_image camera_on \<and>
   clear_block True (clear_image camera_on) = (Continue, clear_image camera_on, [])"
  by (rule clear_image_effect)

subsection \<open>C4: a successful submission\<close>

text \<open>Neither submission path touches the recorded language.\<close>

theorem submit_image_language_counterexample:
  "open_example 2 = Some 2 \<and>
   previous_language (fst (upload_block open_example (Some 2) analysed_french)) = Some ''French'' \<and>
   previous_language (fst (snd (camera_block open_example (Some 2) camera_on))) = Some ''French''"
  by (simp add: upload_block_def camera_block_def open_example_def analysed_french_def camera_on_def)

text \<open>
  Claim C4, amended. When the submitted file decodes to \<open>bitmap\<close>, the upload block, and
  the camera block whenever the camera is active, leave the image equal to \<open>bitmap\<close>, the
  analysis result absent and the camera flag false (for both sources); the recorded
  language is left as it was. The camera path ends the execution with a rerun.
\<close>

theorem submit_image_effect:
  assumes "img_open f = Some bitmap"
  shows "captured_image_pil (fst (upload_block img_open (Some f) s)) = Some bitmap \<and>
         analysis_result (fst (upload_block img_open (Some f) s)) = None \<and>
         \<not> show_camera (fst (upload_block img_open (Some f) s)) \<and>
         previous_language (fst (upload_block img_open (Some f) s)) = previous_language s \<and>
         (show_camera s \<longrightarrow>
            fst (camera_block img_open (Some f) s) = Rerun \<and>
            captured_image_pil (fst (snd (camera_block img_open (Some f) s))) = Some bitmap \<and>
            analysis_result (fst (snd (camera_block img_open (Some f) s))) = None \<and>
            \<not> show_camera (fst (snd (camera_block img_open (Some f) s))) \<and>
            previous_language (fst (snd (camera_block img_open (Some f) s))) = previous_language s)"
  using assms by (simp add: upload_block_def camera_block_def)

theorem submit_image_effect_witness:
  "open_example 2 = Some 2 \<and> show_camera camera_on \<and>
   captured_image_pil (fst (upload_block open_example (Some 2) camera_on)) = Some 2 \<and>
   analysis_result (fst (upload_block open_example (Some 2) camera_on)) = None \<and>
   \<not> show_camera (fst (upload_block open_example (Some 2) camera_on)) \<and>
   fst (camera_block open_example (Some 2) camera_on) = Rerun \<and>
   captured_image_pil (fst (snd (camera_block open_example (Some 2) camera_on))) = Some 2 \<and>
   analysis_result (fst (snd (camera_block open_example (Some 2) camera_on))) = None \<and>
   \<not> show_camera (fst (snd (camera_block open_example (Some 2) camera_on)))"
proof -
  have h: "open_example 2 = Some 2" by (simp add: open_example_def)
  have c: "show_camera camera_on" by (simp add: camera_on_def)
  from submit_image_effect[where img_open = open_example and f = 2 and bitmap = 2 and s = camera_on, OF h] h c show ?thesis by simp
qed

subsection \<open>C5: a submission that does not decode\<close>

text \<open>Both exception handlers set the image to absent, whatever it was.\<close>

theorem decode_failure_image_counterexample:
  "open_example 0 = None \<and> captured_image_pil analysed_french = Some 1 \<and>
   captured_image_pil (fst (upload_block open_example (Some 0) analysed_french)) = None"
  by (simp add: upload_block_def open_example_def analysed_french_def)

text \<open>
  Claim C5, amended. When the submitted file does not decode, the upload block, and the
  camera block whenever the camera is active, raise nothing and continue the execution;
  afterwards the image is absent (an image held before is discarded), while the analysis
  result, the recorded language and the camera flag are what they were.
\<close>

theorem decode_failure_effect:
  assumes "img_open f = None"
  shows "captured_image_pil (fst (upload_block img_open (Some f) s)) = None \<and>
         analysis_result (fst (upload_block img_open (Some f) s)) = analysis_result s \<and>
         previous_language (fst (upload_block img_open (Some f) s)) = previous_language s \<and>
         show_camera (fst (upload_block img_open (Some f) s)) = show_camera s \<and>
         (show_camera s \<longrightarrow>
            fst (camera_block img_open (Some f) s) = Continue \<and>
            captured_image_pil (fst (snd (camera_block img_open (Some f) s))) = None \<and>
            analysis_result (fst (snd (camera_block img_open (Some f) s))) = analysis_result s \<and>
            previous_language (fst (snd (camera_block img_open (Some f) s))) = previous_language s \<and>
            show_camera (fst (snd (camera_block img_open (Some f) s))))"
  using assms by (simp add: upload_block_def camera_block_def)

theorem decode_failure_effect_witness:
  "open_example 0 = None \<and> show_camera camera_on \<and>
   captured_image_pil (fst (upload_block open_example (Some 0) camera_on)) = None \<and>
   analysis_result (fst (upload_block open_example (Some 0) camera_on)) = Some ''Bonjour'' \<and>
   fst (camera_block open_example (Some 0) camera_on) = Continue \<and>
   captured_image_pil (fst (snd (camera_block open_example (Some 0) camera_on))) = None \<and>
   analysis_result (fst (snd (camera_block open_example (Some 0) camera_on))) = Some ''Bonjour''"
proof -
  have h: "open_example 0 = None" by (simp add: open_example_def)
  have c: "show_camera camera_on" by (simp add: camera_on_def)
  have r: "analysis_result camera_on = Some ''Bonjour''"
    by (simp add: camera_on_def analysed_french_def)
  from decode_failure_effect[where img_open = open_example and f = 0 and s = camera_on, OF h] h c r show ?thesis by simp
qed

subsection \<open>C6: a language change after a successful analysis\<close>

text \<open>
  Claim C6. Let a session with an image be reached by an analysis for \<open>lang\<close> that called
  the vision model and received a non-empty text \<open>t\<close>: it holds \<open>t\<close> as result and
  \<open>lang\<close> as recorded language. Then the analysis block run for any other language
  \<open>lang'\<close> calls the vision model exactly once, with the prompt for \<open>lang'\<close> and the same
  image, whatever the model answers.
\<close>

theorem language_change_recomputes_once:
  assumes "captured_image_pil s = Some img"
    and "analysis_result s = None \<or> previous_language s \<noteq> Some lang"
    and "mv (vision_prompt lang) img = Text t" and "t \<noteq> []"
    and "lang' \<noteq> lang"
  shows "analysis_result (fst (ensure_analysis mv lang img s)) = Some t \<and>
         previous_language (fst (ensure_analysis mv lang img s)) = Some lang \<and>
         filter is_vision_call
           (snd (ensure_analysis mv' lang' img (fst (ensure_analysis mv lang img s)))) =
           [VisionCall (vision_prompt lang') img] \<and>
         analyze_calls (snd (ensure_analysis mv' lang' img (fst (ensure_analysis mv lang img s)))) = 1"
  using assms(2-5)
  by (auto simp add: ensure_analysis_def process_image_with_gemini_def truthy_def analyze_calls_def
        block_feedback_def Let_def split: gen_response.splits option.splits)

theorem language_change_recomputes_once_witness:
  "captured_image_pil first_image = Some 1 \<and>
   analysis_result first_image = None \<and>
   vision_up (vision_prompt ''French'') 1 = Text ''Bonjour'' \<and>
   ''German'' \<noteq> ''French'' \<and>
   analysis_result (fst (ensure_analysis vision_up ''French'' 1 first_image)) = Some ''Bonjour'' \<and>
   previous_language (fst (ensure_analysis vision_up ''French'' 1 first_image)) = Some ''French'' \<and>
   analyze_calls
     (snd (ensure_analysis vision_down ''German'' 1
             (fst (ensure_analysis vision_up ''French'' 1 first_image)))) = 1"
proof -
  have h1: "captured_image_pil first_image = Some 1"
    by (simp add: first_image_def initial_session_def)
  have h2: "analysis_result first_image = None"
    by (simp add: first_image_def initial_session_def)
  then have h2': "analysis_result first_image = None \<or> previous_language first_image \<noteq> Some ''French''"
    by simp
  have h3: "vision_up (vision_prompt ''French'') 1 = Text ''Bonjour''"
    by (simp add: vision_up_def)
  have h4: "''Bonjour'' \<noteq> []" by simp
  have h5: "''German'' \<noteq> ''French''" by simp
  note c = language_change_recomputes_once[where s = first_image and img = 1
      and lang = "''French''" and mv = vision_up and t = "''Bonjour''" and lang' = "''German''"
      and mv' = vision_down, OF h1 h2' h3 h4 h5]
  from c h1 h2 h3 h5 show ?thesis by blast
qed

subsection \<open>C7: a follow-up question\<close>

text \<open>
  Claim C7. The follow-up handler returns the session it was given, for every session,
  result text, question and answer of the text model. For a whole execution of the script,
  the session it leaves does not depend on the question, on whether the answer button was
  clicked, or on what the text model does.
\<close>

theorem ask_followup_frame:
  "fst (ask_followup mt r q clicked s) = s \<and>
   fst (snd (script_run (e\<lparr>model_text := mt'\<rparr>) (inp\<lparr>user_q := q', get_answer_clicked := c'\<rparr>) s)) =
   fst (snd (script_run e inp s))"
  by (simp only: ask_followup_state script_run_state_followup)

theorem ask_followup_frame_witness:
  "fst (ask_followup text_down ''Bonjour'' ''Who wrote it?'' True analysed_french) = analysed_french \<and>
   fst (snd (script_run (env_up\<lparr>model_text := text_down\<rparr>)
               ((idle_inputs ''French'')\<lparr>user_q := ''Who wrote it?'', get_answer_clicked := True\<rparr>)
               analysed_french)) =
   fst (snd (script_run env_up (idle_inputs ''French'') analysed_french))"
  by (rule ask_followup_frame)

subsection \<open>C8: upload before camera\<close>

text \<open>
  The last submitted bitmap does not always survive. In a new session the undecodable file
  0 is uploaded and stays in the uploader; the camera button is clicked; photo 3 is taken.
  The execution that reads the photo stores it and restarts the script (line 126); the
  restarted execution fails to decode file 0 again and sets the image to absent (line
  140). The cycle ends without an image, although photo 3 was the last bitmap submitted.
\<close>

theorem last_submission_counterexample:
  "image_open env_up 0 = None \<and> image_open env_up 3 = Some 3 \<and>
   run_cycles 2 [(env_up, broken_upload_inputs), (env_up, broken_upload_toggle_inputs)]
     initial_session = Some (initial_session\<lparr>show_camera := True\<rparr>) \<and>
   camera_img_file_buffer broken_upload_photo_inputs = Some 3 \<and>
   script_run env_up broken_upload_photo_inputs (initial_session\<lparr>show_camera := True\<rparr>) =
     (Rerun, initial_session\<lparr>captured_image_pil := Some 3\<rparr>, [CameraInfo]) \<and>
   refresh_cycle 2 env_up broken_upload_photo_inputs (initial_session\<lparr>show_camera := True\<rparr>) =
     Some (initial_session, [CameraInfo, UploadDecodeError, GetStartedInfo]) \<and>
   captured_image_pil (initial_session :: nat session) = None"
  by (simp add: numeral_2_eq_2 script_run_def camera_block_def upload_block_def clear_block_def
        col2_def toggle_camera_def rerun_inputs_def broken_upload_photo_inputs_def
        broken_upload_toggle_inputs_def broken_upload_inputs_def idle_inputs_def env_up_def
        open_example_def initial_session_def Let_def)

text \<open>
  Claim C8, amended. A refresh cycle whose uploader holds a file that decodes to \<open>u\<close>
  returns, and leaves \<open>u\<close> as the image, for every prior session and whatever the camera
  widget holds (a photo captured in the same cycle is stored first, the execution is
  restarted, and the upload block of the restarted execution replaces it); the same holds
  after any history of earlier cycles. A cycle with an empty uploader in which the active
  camera delivers a photo that decodes to \<open>c\<close> leaves \<open>c\<close> as the image. A cycle whose
  uploader holds a file that does not decode leaves the image absent, also when a photo
  was captured in it. So the image is the last submitted bitmap whenever the uploader is
  empty or holds a decodable file.
\<close>

theorem upload_priority:
  "(uploaded_file inp = Some f \<and> image_open e f = Some u \<longrightarrow>
      (\<exists>s' log. refresh_cycle 2 e inp s = Some (s', log) \<and> captured_image_pil s' = Some u) \<and>
      (\<exists>s'. run_cycles 2 (history @ [(e, inp)]) s = Some s' \<and> captured_image_pil s' = Some u)) \<and>
   (uploaded_file inp = None \<and> show_camera s \<noteq> activate_camera_clicked inp \<and>
    camera_img_file_buffer inp = Some g \<and> image_open e g = Some c \<longrightarrow>
      (\<exists>s' log. refresh_cycle 2 e inp s = Some (s', log) \<and> captured_image_pil s' = Some c)) \<and>
   (uploaded_file inp = Some f \<and> image_open e f = None \<longrightarrow>
      (\<exists>s' log. refresh_cycle 2 e inp s = Some (s', log) \<and> captured_image_pil s' = None))"
proof (intro conjI impI)
  assume a: "uploaded_file inp = Some f \<and> image_open e f = Some u"
  then have up: "uploaded_file inp = Some f" and dec: "image_open e f = Some u"
    by simp_all
  show "\<exists>s' log. refresh_cycle 2 e inp s = Some (s', log) \<and> captured_image_pil s' = Some u"
    by (rule refresh_cycle_upload[OF up dec])
  obtain s0 where h: "run_cycles 2 history s = Some s0"
    using run_cycles_returns[of 0 history s] by (auto simp add: numeral_2_eq_2)
  obtain s' log where "refresh_cycle 2 e inp s0 = Some (s', log)" "captured_image_pil s' = Some u"
    using refresh_cycle_upload[OF up dec, of s0] by auto
  with h show "\<exists>s'. run_cycles 2 (history @ [(e, inp)]) s = Some s' \<and> captured_image_pil s' = Some u"
    by (simp add: run_cycles_append)
next
  assume b: "uploaded_file inp = None \<and> show_camera s \<noteq> activate_camera_clicked inp \<and>
    camera_img_file_buffer inp = Some g \<and> image_open e g = Some c"
  show "\<exists>s' log. refresh_cycle 2 e inp s = Some (s', log) \<and> captured_image_pil s' = Some c"
    by (rule refresh_cycle_capture[of inp s g e c]) (use b in simp_all)
next
  assume n: "uploaded_file inp = Some f \<and> image_open e f = None"
  then have up: "uploaded_file inp = Some f" and bad: "image_open e f = None"
    by simp_all
  show "\<exists>s' log. refresh_cycle 2 e inp s = Some (s', log) \<and> captured_image_pil s' = None"
    by (rule refresh_cycle_upload_fails[OF up bad])
qed

theorem upload_priority_witness:
  "uploaded_file both_inputs = Some 2 \<and> camera_img_file_buffer both_inputs = Some 3 \<and>
   image_open env_up 2 = Some 2 \<and> image_open env_up 3 = Some 3 \<and> show_camera camera_on \<and>
   fst (script_run env_up both_inputs camera_on) = Rerun \<and>
   captured_image_pil (fst (snd (script_run env_up both_inputs camera_on))) = Some 3 \<and>
   (\<exists>s' log. refresh_cycle 2 env_up both_inputs camera_on = Some (s', log) \<and>
      captured_image_pil s' = Some 2) \<and>
   (\<exists>s'. run_cycles 2 ([(env_down, capture_inputs)] @ [(env_up, both_inputs)]) camera_on = Some s' \<and>
      captured_image_pil s' = Some 2) \<and>
   uploaded_file capture_inputs = None \<and> camera_img_file_buffer capture_inputs = Some 3 \<and>
   show_camera camera_on \<noteq> activate_camera_clicked capture_inputs \<and>
   (\<exists>s' log. refresh_cycle 2 env_up capture_inputs camera_on = Some (s', log) \<and>
      captured_image_pil s' = Some 3) \<and>
   uploaded_file broken_upload_photo_inputs = Some 0 \<and> image_open env_up 0 = None \<and>
   (\<exists>s' log. refresh_cycle 2 env_up broken_upload_photo_inputs camera_on = Some (s', log) \<and>
      captured_image_pil s' = None)"
proof -
  have m: "uploaded_file broken_upload_photo_inputs = Some 0" "image_open env_up 0 = None"
    by (simp_all add: broken_upload_photo_inputs_def broken_upload_inputs_def idle_inputs_def
          env_up_def open_example_def)
  note n = upload_priority[where inp = broken_upload_photo_inputs and f = 0 and e = env_up
      and s = camera_on]
  from n m have n': "\<exists>s' log. refresh_cycle 2 env_up broken_upload_photo_inputs camera_on = Some (s', log) \<and>
      captured_image_pil s' = None"
    by blast
  have b: "uploaded_file both_inputs = Some 2" "camera_img_file_buffer both_inputs = Some 3"
    "activate_camera_clicked both_inputs = False"
    by (simp_all add: both_inputs_def idle_inputs_def)
  have k: "uploaded_file capture_inputs = None" "camera_img_file_buffer capture_inputs = Some 3"
    "show_camera camera_on \<noteq> activate_camera_clicked capture_inputs"
    by (simp_all add: capture_inputs_def idle_inputs_def camera_on_def)
  have d: "image_open env_up 2 = Some 2" "image_open env_up 3 = Some 3"
    by (simp_all add: env_up_def open_example_def)
  have on: "show_camera camera_on" by (simp add: camera_on_def)
  have first: "fst (script_run env_up both_inputs camera_on) = Rerun"
    "captured_image_pil (fst (snd (script_run env_up both_inputs camera_on))) = Some 3"
    using b d on by (simp_all add: script_run_def camera_block_def)
  note u = upload_priority[where inp = both_inputs and f = 2 and e = env_up and u = 2
      and s = camera_on and history = "[(env_down, capture_inputs)]"]
  note c = upload_priority[where inp = capture_inputs and e = env_up and s = camera_on
      and g = 3 and c = 3]
  from u b d have u': "(\<exists>s' log. refresh_cycle 2 env_up both_inputs camera_on = Some (s', log) \<and>
      captured_image_pil s' = Some 2) \<and>
    (\<exists>s'. run_cycles 2 ([(env_down, capture_inputs)] @ [(env_up, both_inputs)]) camera_on = Some s' \<and>
      captured_image_pil s' = Some 2)"
    by blast
  from c k d have c': "\<exists>s' log. refresh_cycle 2 env_up capture_inputs camera_on = Some (s', log) \<and>
      captured_image_pil s' = Some 3"
    by blast
  show ?thesis
    by (intro conjI b(1,2) d on first conjunct1[OF u'] conjunct2[OF u'] k c' m n')
qed

subsection \<open>C9: camera on, then off\<close>

text \<open>
  Claim C9. For every prior session, the camera button's body applied twice leaves image
  and analysis result absent; when the camera was off before, the first application
  switches it on and the second off. The same holds for two refresh cycles from a session
  whose camera is off: the first with the camera button clicked, no clear click, no upload
  and no photo; the second with the camera button clicked and no upload.
\<close>

theorem camera_switched_on_then_off:
  "captured_image_pil (toggle_camera (toggle_camera s)) = None \<and>
   analysis_result (toggle_camera (toggle_camera s)) = None \<and>
   (\<not> show_camera s \<longrightarrow>
      show_camera (toggle_camera s) \<and> \<not> show_camera (toggle_camera (toggle_camera s))) \<and>
   (\<not> show_camera s \<and>
    activate_camera_clicked on \<and> \<not> clear_image_clicked on \<and> uploaded_file on = None \<and>
    camera_img_file_buffer on = None \<and> activate_camera_clicked off \<and> uploaded_file off = None \<longrightarrow>
      (\<exists>s1 log1 s2 log2.
         refresh_cycle 2 e1 on s = Some (s1, log1) \<and> show_camera s1 \<and>
         refresh_cycle 2 e2 off s1 = Some (s2, log2) \<and>
         captured_image_pil s2 = None \<and> analysis_result s2 = None \<and> \<not> show_camera s2))"
proof (intro conjI impI)
  show "captured_image_pil (toggle_camera (toggle_camera s)) = None"
    by (simp add: toggle_camera_def Let_def)
  show "analysis_result (toggle_camera (toggle_camera s)) = None"
    by (simp add: toggle_camera_def Let_def)
next
  assume "\<not> show_camera s"
  then show "show_camera (toggle_camera s)"
    by (simp add: toggle_camera_on)
next
  assume "\<not> show_camera s"
  then show "\<not> show_camera (toggle_camera (toggle_camera s))"
    by (simp add: toggle_camera_on toggle_camera_off)
next
  assume h: "\<not> show_camera s \<and>
    activate_camera_clicked on \<and> \<not> clear_image_clicked on \<and> uploaded_file on = None \<and>
    camera_img_file_buffer on = None \<and> activate_camera_clicked off \<and> uploaded_file off = None"
  then have off: "\<not> show_camera s" by simp
  from h obtain s1 log1 where r1: "script_run e1 on s = (Continue, s1, log1)" and on: "show_camera s1"
    using script_run_camera_on[OF off, of on e1] by auto
  from h on have r2: "script_run e2 off s1 = (Continue, toggle_camera s1, [GetStartedInfo])"
    by (simp add: script_run_camera_off)
  from r1 have c1: "refresh_cycle 2 e1 on s = Some (s1, log1)"
    by (simp add: numeral_2_eq_2)
  from r2 have c2: "refresh_cycle 2 e2 off s1 = Some (toggle_camera s1, [GetStartedInfo])"
    by (simp add: numeral_2_eq_2)
  from c1 c2 on show "\<exists>s1 log1 s2 log2.
         refresh_cycle 2 e1 on s = Some (s1, log1) \<and> show_camera s1 \<and>
         refresh_cycle 2 e2 off s1 = Some (s2, log2) \<and>
         captured_image_pil s2 = None \<and> analysis_result s2 = None \<and> \<not> show_camera s2"
    by (simp add: toggle_camera_off)
qed

theorem camera_switched_on_then_off_witness:
  "\<not> show_camera analysed_french \<and> captured_image_pil analysed_french = Some 1 \<and>
   analysis_result analysed_french = Some ''Bonjour'' \<and>
   activate_camera_clicked toggle_inputs \<and> \<not> clear_image_clicked toggle_inputs \<and>
   uploaded_file toggle_inputs = None \<and> camera_img_file_buffer toggle_inputs = None \<and>
   captured_image_pil (toggle_camera (toggle_camera analysed_french)) = None \<and>
   analysis_result (toggle_camera (toggle_camera analysed_french)) = None \<and>
   show_camera (toggle_camera analysed_french) \<and>
   (\<exists>s1 log1 s2 log2.
      refresh_cycle 2 env_up toggle_inputs analysed_french = Some (s1, log1) \<and> show_camera s1 \<and>
      refresh_cycle 2 env_up toggle_inputs s1 = Some (s2, log2) \<and>
      captured_image_pil s2 = None \<and> analysis_result s2 = None \<and> \<not> show_camera s2)"
proof -
  have off: "\<not> show_camera analysed_french" by (simp add: analysed_french_def)
  have st: "captured_image_pil analysed_french = Some 1"
    "analysis_result analysed_french = Some ''Bonjour''"
    by (simp_all add: analysed_french_def)
  have i: "activate_camera_clicked toggle_inputs" "\<not> clear_image_clicked toggle_inputs"
    "uploaded_file toggle_inputs = None" "camera_img_file_buffer toggle_inputs = None"
    by (simp_all add: toggle_inputs_def idle_inputs_def)
  note t = camera_switched_on_then_off[where s = analysed_french and on = toggle_inputs
      and off = toggle_inputs and ?e1.0 = env_up and ?e2.0 = env_up]
  from t off st i show ?thesis by blast
qed

subsection \<open>C10: the failure placeholder is treated as a result\<close>

text \<open>
  Claim C10. For a session with an image whose recorded language differs from the target
  language, if the call of the vision model fails (it raises or returns an empty text),
  the analysis column stores the fixed, non-empty placeholder as analysis result and, in
  the same execution, shows it in the result area, offers it for download, and, when a
  non-empty question is asked, sends it to the text model as the previous text of the
  follow-up prompt.
\<close>

theorem failure_placeholder_surfaces:
  assumes "captured_image_pil s = Some img"
    and "previous_language s \<noteq> Some lang"
    and "\<not> truthy (fst (process_image_with_gemini mv img lang))"
  shows "failure_placeholder = ''Analysis failed. Please try a different image or check logs.'' \<and>
         failure_placeholder \<noteq> [] \<and>
         col2 mv mt lang q clicked s =
           (s\<lparr>analysis_result := Some failure_placeholder\<rparr>,
            snd (process_image_with_gemini mv img lang) @
            [ResultArea failure_placeholder, DownloadButton failure_placeholder (download_name lang)] @
            snd (ask_followup mt failure_placeholder q clicked
                   (s\<lparr>analysis_result := Some failure_placeholder\<rparr>))) \<and>
         (q \<noteq> [] \<and> clicked \<longrightarrow>
            (\<exists>rest. snd (ask_followup mt failure_placeholder q clicked
                            (s\<lparr>analysis_result := Some failure_placeholder\<rparr>)) =
                     TextCall (followup_prompt failure_placeholder q) # rest))"
proof (intro conjI impI)
  show "failure_placeholder = ''Analysis failed. Please try a different image or check logs.''"
    by (rule failure_placeholder_def)
  show "failure_placeholder \<noteq> []" by (rule failure_placeholder_nonempty)
next
  let ?s' = "s\<lparr>analysis_result := Some failure_placeholder\<rparr>"
  have "analysis_result ?s' = Some failure_placeholder" by simp
  from result_section_shown[OF this failure_placeholder_nonempty, of mt lang q clicked]
    ensure_analysis_failure[OF assms(2,3)] assms(1)
  show "col2 mv mt lang q clicked s =
           (?s', snd (process_image_with_gemini mv img lang) @
            [ResultArea failure_placeholder, DownloadButton failure_placeholder (download_name lang)] @
            snd (ask_followup mt failure_placeholder q clicked ?s'))"
    by (simp add: col2_def)
next
  assume "q \<noteq> [] \<and> clicked"
  then show "\<exists>rest. snd (ask_followup mt failure_placeholder q clicked
                            (s\<lparr>analysis_result := Some failure_placeholder\<rparr>)) =
                     TextCall (followup_prompt failure_placeholder q) # rest"
    using ask_followup_context by blast
qed

theorem failure_placeholder_surfaces_witness:
  "captured_image_pil analysed_french = Some 1 \<and>
   previous_language analysed_french \<noteq> Some ''German'' \<and>
   \<not> truthy (fst (process_image_with_gemini vision_down 1 ''German'')) \<and>
   col2 vision_down text_up ''German'' ''Who wrote it?'' True analysed_french =
     (analysed_french\<lparr>analysis_result := Some failure_placeholder\<rparr>,
      [VisionCall (vision_prompt ''German'') 1, VisionError,
       ResultArea failure_placeholder,
       DownloadButton failure_placeholder ''ScriptSense_Analysis_German.txt'',
       TextCall (followup_prompt failure_placeholder ''Who wrote it?''),
       FollowUpSuccess ''A greeting.''])"
proof -
  have h1: "captured_image_pil analysed_french = Some 1" by (simp add: analysed_french_def)
  have h2: "previous_language analysed_french \<noteq> Some ''German''" by (simp add: analysed_french_def)
  have h3: "\<not> truthy (fst (process_image_with_gemini vision_down 1 ''German''))"
    by (simp add: process_image_with_gemini_def vision_down_def truthy_def)
  have p: "snd (process_image_with_gemini vision_down 1 ''German'') =
      [VisionCall (vision_prompt ''German'') 1, VisionError]"
    by (simp add: process_image_with_gemini_def vision_down_def block_feedback_def)
  have a: "snd (ask_followup text_up failure_placeholder ''Who wrote it?'' True
                  (analysed_french\<lparr>analysis_result := Some failure_placeholder\<rparr>)) =
      [TextCall (followup_prompt failure_placeholder ''Who wrote it?''), FollowUpSuccess ''A greeting.'']"
    by (simp add: ask_followup_def get_followup_response_def text_up_def)
  have n: "download_name ''German'' = ''ScriptSense_Analysis_German.txt''"
    by (simp add: download_name_def)
  note c = failure_placeholder_surfaces[where s = analysed_french and img = 1
      and lang = "''German''" and mv = vision_down and mt = text_up and q = "''Who wrote it?''"
      and clicked = True, OF h1 h2 h3]
  from c have "col2 vision_down text_up ''German'' ''Who wrote it?'' True analysed_french =
     (analysed_french\<lparr>analysis_result := Some failure_placeholder\<rparr>,
      snd (process_image_with_gemini vision_down 1 ''German'') @
      [ResultArea failure_placeholder, DownloadButton failure_placeholder (download_name ''German'')] @
      snd (ask_followup text_up failure_placeholder ''Who wrote it?'' True
             (analysed_french\<lparr>analysis_result := Some failure_placeholder\<rparr>)))"
    by blast
  then have "col2 vision_down text_up ''German'' ''Who wrote it?'' True analysed_french =
     (analysed_french\<lparr>analysis_result := Some failure_placeholder\<rparr>,
      [VisionCall (vision_prompt ''German'') 1, VisionError,
       ResultArea failure_placeholder,
       DownloadButton failure_placeholder ''ScriptSense_Analysis_German.txt'',
       TextCall (followup_prompt failure_placeholder ''Who wrote it?''),
       FollowUpSuccess ''A greeting.''])"
    by (simp only: p a n append.simps)
  with h1 h2 h3 show ?thesis by blast
qed

end
